theory Spec2Isabelle
  imports Main "HOL-Library.Word"
begin

section \<open>Configuration\<close>

text \<open>
  The server reads its settings through \<^verbatim>\<open>viper\<close>. The record holds the keys that the
  modelled functions read: \<^verbatim>\<open>server.hostname\<close>, \<^verbatim>\<open>server.allowRandomUser\<close>,
  \<^verbatim>\<open>server.allowRetryLogin\<close>, \<^verbatim>\<open>server.portRedirection\<close> and
  \<^verbatim>\<open>server.portRedirectionMap\<close>. The map is a Go \<^verbatim>\<open>map[string]interface{}\<close>: a value is
  a string or something else, and a missing key reads as the nil interface.
\<close>

datatype iface = IString string | IOther

record viper =
  hostname :: string
  allowRandomUser :: bool
  allowRetryLogin :: bool
  portRedirection :: string
  portRedirectionMap :: "string \<rightharpoonup> iface"

section \<open>Password authentication: \<^verbatim>\<open>PasswordChallenge\<close>\<close>

text \<open>
  \<^verbatim>\<open>PasswordChallenge(tries)\<close> returns a closure over the counter \<^verbatim>\<open>triesLeft\<close>. One call of
  the closure is \<open>PasswordChallenge\<close> below: it takes the counter and returns the decision
  with the counter after the call. The counter is a Go \<^verbatim>\<open>int\<close> (64 bits), whose decrement
  wraps. \<^verbatim>\<open>os.IsUserExist\<close> is not among the sources; it is the parameter \<open>IsUserExist\<close>,
  returning the stored password and whether the user exists. Logging and the sleep before a
  rejection are not modelled.
\<close>

datatype auth = Accept | Reject

definition PasswordChallenge ::
  "viper \<Rightarrow> (string \<Rightarrow> string \<times> bool) \<Rightarrow> 64 word \<Rightarrow> string \<Rightarrow> string \<Rightarrow> auth \<times> 64 word" where
  "PasswordChallenge cfg IsUserExist triesLeft usr pass =
     (case IsUserExist usr of (stpass, userExists) \<Rightarrow>
        if userExists \<and> stpass = pass then (Accept, triesLeft)
        else if (userExists \<and> (stpass \<noteq> pass \<or> stpass = ''*'')) \<or> allowRandomUser cfg then
          (if allowRetryLogin cfg then
             (if triesLeft = 1 then (Accept, triesLeft) else (Reject, triesLeft - 1))
           else (Accept, triesLeft))
        else (Reject, triesLeft))"

text \<open>
  The attempts of one negotiation, in order: each is a user name and a password, and the
  counter is threaded through the calls.
\<close>

fun attempts ::
  "viper \<Rightarrow> (string \<Rightarrow> string \<times> bool) \<Rightarrow> 64 word \<Rightarrow> (string \<times> string) list \<Rightarrow> auth list" where
  "attempts cfg IsUserExist triesLeft [] = []"
| "attempts cfg IsUserExist triesLeft ((usr, pass) # rest) =
     (case PasswordChallenge cfg IsUserExist triesLeft usr pass of
        (r, triesLeft') \<Rightarrow> r # attempts cfg IsUserExist triesLeft' rest)"

text \<open>
  An attempt enters the deception branch when the first test of the closure fails and the
  second succeeds.
\<close>

definition deception :: "viper \<Rightarrow> (string \<Rightarrow> string \<times> bool) \<Rightarrow> string \<times> string \<Rightarrow> bool" where
  "deception cfg IsUserExist a =
     (case a of (usr, pass) \<Rightarrow>
        case IsUserExist usr of (stpass, userExists) \<Rightarrow>
          (if userExists \<and> stpass = pass then False
           else (userExists \<and> (stpass \<noteq> pass \<or> stpass = ''*'')) \<or> allowRandomUser cfg))"

section \<open>Strings\<close>

text \<open>
  A Go string is a sequence of bytes, here a \<open>string\<close>. The functions of the packages
  \<^verbatim>\<open>strings\<close>, \<^verbatim>\<open>path\<close> and \<^verbatim>\<open>strconv\<close> that the code calls are written out for the
  arguments it passes: the separator is always the one-byte string of a space.
  \<open>SplitN2 s sep\<close> is \<^verbatim>\<open>strings.SplitN(s, sep, 2)\<close>.
\<close>

definition HasPrefix :: "string \<Rightarrow> string \<Rightarrow> bool" where
  "HasPrefix s pre = (length pre \<le> length s \<and> take (length pre) s = pre)"

fun Split :: "string \<Rightarrow> char \<Rightarrow> string list" where
  "Split [] sep = [[]]"
| "Split (c # s) sep =
     (if c = sep then [] # Split s sep
      else (case Split s sep of [] \<Rightarrow> [[c]] | a # as \<Rightarrow> (c # a) # as))"

fun SplitN2 :: "string \<Rightarrow> char \<Rightarrow> string list" where
  "SplitN2 [] sep = [[]]"
| "SplitN2 (c # s) sep =
     (if c = sep then [[], s]
      else (case SplitN2 s sep of [] \<Rightarrow> [[c]] | a # as \<Rightarrow> (c # a) # as))"

text \<open>
  \<^verbatim>\<open>strings.TrimSpace\<close> removes the leading and the trailing code points that
  \<^verbatim>\<open>unicode.IsSpace\<close> accepts, reading the string as UTF-8: the six of ASCII
  (\<open>isSpace\<close>), U+0085 and U+00A0, which take two bytes (\<open>isSpace2\<close>), and U+1680,
  U+2000 to U+200A, U+2028, U+2029, U+202F, U+205F and U+3000, which take three
  (\<open>isSpace3\<close>). A byte that starts no well-formed encoding is read as U+FFFD, which is
  not white space, so a code point at the front is white space exactly when the string
  starts with one of these encodings, and one at the end when the string ends with one.
  \<open>trim_runes\<close> removes such code points at the front, given the three tests; at the end
  it runs on the reversed string, with the bytes of each test in reverse order.
\<close>

definition isSpace :: "char \<Rightarrow> bool" where
  "isSpace c = (c \<in> set [CHR 0x09, CHR 0x0A, CHR 0x0B, CHR 0x0C, CHR 0x0D, CHR '' ''])"

definition isSpace2 :: "char \<Rightarrow> char \<Rightarrow> bool" where
  "isSpace2 a b = (a = CHR 0xC2 \<and> (b = CHR 0x85 \<or> b = CHR 0xA0))"

definition isSpace3 :: "char \<Rightarrow> char \<Rightarrow> char \<Rightarrow> bool" where
  "isSpace3 a b c =
     ((a = CHR 0xE1 \<and> b = CHR 0x9A \<and> c = CHR 0x80)
      \<or> (a = CHR 0xE2 \<and> b = CHR 0x80
           \<and> c \<in> set [CHR 0x80, CHR 0x81, CHR 0x82, CHR 0x83, CHR 0x84, CHR 0x85, CHR 0x86,
                       CHR 0x87, CHR 0x88, CHR 0x89, CHR 0x8A, CHR 0xA8, CHR 0xA9, CHR 0xAF])
      \<or> (a = CHR 0xE2 \<and> b = CHR 0x81 \<and> c = CHR 0x9F)
      \<or> (a = CHR 0xE3 \<and> b = CHR 0x80 \<and> c = CHR 0x80))"

fun trim_runes ::
  "(char \<Rightarrow> bool) \<Rightarrow> (char \<Rightarrow> char \<Rightarrow> bool) \<Rightarrow> (char \<Rightarrow> char \<Rightarrow> char \<Rightarrow> bool)
     \<Rightarrow> string \<Rightarrow> string" where
  "trim_runes p1 p2 p3 [] = []"
| "trim_runes p1 p2 p3 [a] = (if p1 a then [] else [a])"
| "trim_runes p1 p2 p3 [a, b] =
     (if p1 a then trim_runes p1 p2 p3 [b]
      else if p2 a b then []
      else [a, b])"
| "trim_runes p1 p2 p3 (a # b # c # s) =
     (if p1 a then trim_runes p1 p2 p3 (b # c # s)
      else if p2 a b then trim_runes p1 p2 p3 (c # s)
      else if p3 a b c then trim_runes p1 p2 p3 s
      else a # b # c # s)"

definition TrimLeft :: "string \<Rightarrow> string" where
  "TrimLeft s = trim_runes isSpace isSpace2 isSpace3 s"

definition TrimRight :: "string \<Rightarrow> string" where
  "TrimRight s =
     rev (trim_runes isSpace (\<lambda>b a. isSpace2 a b) (\<lambda>c b a. isSpace3 a b c) (rev s))"

definition TrimSpace :: "string \<Rightarrow> string" where
  "TrimSpace s = TrimRight (TrimLeft s)"

text \<open>
  \<^verbatim>\<open>path.Base\<close>: the empty path is \<^verbatim>\<open>.\<close>; trailing slashes are removed; what follows the
  last slash is kept; a path of slashes only is \<^verbatim>\<open>/\<close>.
\<close>

definition Base :: "string \<Rightarrow> string" where
  "Base path =
     (if path = [] then ''.''
      else (let stripped = rev (dropWhile (\<lambda>c. c = CHR ''/'') (rev path));
                last_elem = rev (takeWhile (\<lambda>c. c \<noteq> CHR ''/'') (rev stripped))
            in if last_elem = [] then ''/'' else last_elem))"

fun digits :: "nat \<Rightarrow> string" where
  "digits n =
     (if n < 10 then [''0123456789'' ! n]
      else digits (n div 10) @ [''0123456789'' ! (n mod 10)])"

declare digits.simps [simp del]

definition Itoa :: "int \<Rightarrow> string" where
  "Itoa i = (if i < 0 then CHR ''-'' # digits (nat (- i)) else digits (nat i))"

text \<open>
  The conversion \<^verbatim>\<open>string(n)\<close> of an integer \<^verbatim>\<open>n\<close>: the UTF-8 encoding of the code point
  \<^verbatim>\<open>n\<close>, and the encoding of U+FFFD when \<^verbatim>\<open>n\<close> is not a valid code point.
\<close>

definition string_of_rune :: "int \<Rightarrow> string" where
  "string_of_rune n =
     (if n < 0 \<or> 0x10FFFF < n \<or> (0xD800 \<le> n \<and> n \<le> 0xDFFF)
        then [CHR 0xEF, CHR 0xBF, CHR 0xBD]
      else if n < 0x80 then [char_of n]
      else if n < 0x800 then [char_of (0xC0 + n div 64), char_of (0x80 + n mod 64)]
      else if n < 0x10000 then
        [char_of (0xE0 + n div 4096), char_of (0x80 + (n div 64) mod 64),
         char_of (0x80 + n mod 64)]
      else
        [char_of (0xF0 + n div 262144), char_of (0x80 + (n div 4096) mod 64),
         char_of (0x80 + (n div 64) mod 64), char_of (0x80 + n mod 64)])"

section \<open>Request payloads\<close>

text \<open>
  The structures that the code fills from a payload with \<^verbatim>\<open>ssh.Unmarshal\<close>. A \<^verbatim>\<open>uint32\<close>
  field is a \<open>nat\<close> below \<open>2 ^ 32\<close>; the code converts such fields to \<^verbatim>\<open>int\<close> (64 bits,
  which keeps the value) and does no arithmetic on them.
\<close>

record envRequest =
  env_Name :: string
  env_Value :: string

record ptyRequest =
  pty_Term :: string
  pty_Width :: nat
  pty_Height :: nat
  pty_PWidth :: nat
  pty_PHeight :: nat
  pty_Modes :: string

record winChgRequest =
  win_Width :: nat
  win_Height :: nat

record tunnelRequest =
  RemoteHost :: string
  RemotePort :: nat
  LocalHost :: string
  LocalPort :: nat

text \<open>
  \<^verbatim>\<open>ssh.Unmarshal\<close> belongs to the library \<^verbatim>\<open>golang.org/x/crypto/ssh\<close>, not to this
  repository. The functions that call it take it as a parameter (see \<open>extern\<close> below): the
  structure after the call, which starts zero-valued, and whether an error was returned.

  For evaluation on concrete payloads, the decoders below follow the wire format as the
  library reads it: the fields are read and assigned in the order of their declaration, a
  \<^verbatim>\<open>uint32\<close> as four bytes, most significant first, a string as a \<^verbatim>\<open>uint32\<close> length
  and that many bytes; reading stops with an error at the first field that is cut short,
  leaving the fields read so far assigned; bytes left over after the last field are an error
  as well.
\<close>

definition be32 :: "string \<Rightarrow> nat" where
  "be32 b = foldl (\<lambda>a c. a * 256 + of_char c) 0 b"

definition parseUint32 :: "string \<Rightarrow> (nat \<times> string) option" where
  "parseUint32 d = (if length d < 4 then None else Some (be32 (take 4 d), drop 4 d))"

definition parseString :: "string \<Rightarrow> (string \<times> string) option" where
  "parseString d =
     (case parseUint32 d of
        None \<Rightarrow> None
      | Some (n, r) \<Rightarrow> if length r < n then None else Some (take n r, drop n r))"

definition wire_envRequest :: "string \<Rightarrow> envRequest \<times> bool" where
  "wire_envRequest d =
     (case parseString d of
        None \<Rightarrow> (\<lparr>env_Name = [], env_Value = []\<rparr>, True)
      | Some (n, d1) \<Rightarrow>
          (case parseString d1 of
             None \<Rightarrow> (\<lparr>env_Name = n, env_Value = []\<rparr>, True)
           | Some (v, d2) \<Rightarrow> (\<lparr>env_Name = n, env_Value = v\<rparr>, d2 \<noteq> [])))"

definition wire_winChgRequest :: "string \<Rightarrow> winChgRequest \<times> bool" where
  "wire_winChgRequest d =
     (case parseUint32 d of
        None \<Rightarrow> (\<lparr>win_Width = 0, win_Height = 0\<rparr>, True)
      | Some (w, d1) \<Rightarrow>
          (case parseUint32 d1 of
             None \<Rightarrow> (\<lparr>win_Width = w, win_Height = 0\<rparr>, True)
           | Some (h, d2) \<Rightarrow> (\<lparr>win_Width = w, win_Height = h\<rparr>, d2 \<noteq> [])))"

definition wire_ptyRequest :: "string \<Rightarrow> ptyRequest \<times> bool" where
  "wire_ptyRequest d =
     (let z = \<lparr>pty_Term = [], pty_Width = 0, pty_Height = 0, pty_PWidth = 0, pty_PHeight = 0,
               pty_Modes = []\<rparr>
      in case parseString d of
        None \<Rightarrow> (z, True)
      | Some (t, d1) \<Rightarrow>
      (case parseUint32 d1 of
        None \<Rightarrow> (z\<lparr>pty_Term := t\<rparr>, True)
      | Some (w, d2) \<Rightarrow>
      (case parseUint32 d2 of
        None \<Rightarrow> (z\<lparr>pty_Term := t, pty_Width := w\<rparr>, True)
      | Some (h, d3) \<Rightarrow>
      (case parseUint32 d3 of
        None \<Rightarrow> (z\<lparr>pty_Term := t, pty_Width := w, pty_Height := h\<rparr>, True)
      | Some (pw, d4) \<Rightarrow>
      (case parseUint32 d4 of
        None \<Rightarrow> (z\<lparr>pty_Term := t, pty_Width := w, pty_Height := h, pty_PWidth := pw\<rparr>, True)
      | Some (ph, d5) \<Rightarrow>
      (case parseString d5 of
        None \<Rightarrow>
          (z\<lparr>pty_Term := t, pty_Width := w, pty_Height := h, pty_PWidth := pw,
             pty_PHeight := ph\<rparr>, True)
      | Some (m, d6) \<Rightarrow>
          (\<lparr>pty_Term = t, pty_Width = w, pty_Height = h, pty_PWidth = pw, pty_PHeight = ph,
            pty_Modes = m\<rparr>, d6 \<noteq> [])))))))"

definition wire_tunnelRequest :: "string \<Rightarrow> tunnelRequest \<times> bool" where
  "wire_tunnelRequest d =
     (let z = \<lparr>RemoteHost = [], RemotePort = 0, LocalHost = [], LocalPort = 0\<rparr>
      in case parseString d of
        None \<Rightarrow> (z, True)
      | Some (rh, d1) \<Rightarrow>
      (case parseUint32 d1 of
        None \<Rightarrow> (z\<lparr>RemoteHost := rh\<rparr>, True)
      | Some (rp, d2) \<Rightarrow>
      (case parseString d2 of
        None \<Rightarrow> (z\<lparr>RemoteHost := rh, RemotePort := rp\<rparr>, True)
      | Some (lh, d3) \<Rightarrow>
      (case parseUint32 d3 of
        None \<Rightarrow> (z\<lparr>RemoteHost := rh, RemotePort := rp, LocalHost := lh\<rparr>, True)
      | Some (lp, d4) \<Rightarrow>
          (\<lparr>RemoteHost = rh, RemotePort = rp, LocalHost = lh, LocalPort = lp\<rparr>,
           d4 \<noteq> [])))))"

section \<open>The Virtual Execution Context and the Command Table\<close>

text \<open>
  \<^verbatim>\<open>os.System\<close>, as the struct literal in \<^verbatim>\<open>NewShell\<close> fills it. The byte stream and the
  file system are handles to collaborators and are left out.
\<close>

record System =
  cwd :: string
  envVars :: "string \<rightharpoonup> string"
  Width :: int
  Height :: int

text \<open>
  A command of the table \<^verbatim>\<open>funcMap\<close> receives its arguments and the context; it returns an
  exit status and may have changed the context, or it panics.
\<close>

datatype cmd_result = Returns int System | Panics

type_synonym Command = "string list \<Rightarrow> System \<Rightarrow> cmd_result"

text \<open>
  What the modelled functions use and the sources do not contain:
  \<^item> \<^verbatim>\<open>ssh.Unmarshal\<close> at the four structures (library);
  \<^item> \<open>Homedir\<close>, the home directory that \<^verbatim>\<open>usernameMapping\<close> gives a user;
  \<^item> \<open>funcMap\<close>, the table filled by \<^verbatim>\<open>RegisterCommand\<close>;
  \<^item> \<open>Chdir\<close>, the method \<^verbatim>\<open>System.Chdir\<close>: the context after the call and whether an
    error was returned.
\<close>

record extern =
  Unmarshal_envRequest :: "string \<Rightarrow> envRequest \<times> bool"
  Unmarshal_ptyRequest :: "string \<Rightarrow> ptyRequest \<times> bool"
  Unmarshal_winChgRequest :: "string \<Rightarrow> winChgRequest \<times> bool"
  Unmarshal_tunnelRequest :: "string \<Rightarrow> tunnelRequest \<times> bool"
  Homedir :: "string \<Rightarrow> string"
  funcMap :: "string \<rightharpoonup> Command"
  Chdir :: "System \<Rightarrow> string \<Rightarrow> System \<times> bool"

text \<open>
  Modelled from the spec: \<^verbatim>\<open>os.NewSystem\<close>, which the dispatcher calls and the sources do
  not contain. The spec describes the context as a working directory, an environment
  mapping and the terminal dimensions, created ``sized to the request''; the fields are
  filled as \<^verbatim>\<open>NewShell\<close> fills them.
\<close>

definition NewSystem :: "extern \<Rightarrow> string \<Rightarrow> string \<Rightarrow> int \<Rightarrow> int \<Rightarrow> System" where
  "NewSystem L usr host width height =
     \<lparr>cwd = Homedir L usr, envVars = Map.empty, Width = width, Height = height\<rparr>"

text \<open>
  \<^verbatim>\<open>Shell.Exec\<close>: the result, whether an error is returned, and the context afterwards; or a
  panic of the command.
\<close>

datatype exec_result = Ret int bool System | ExecPanic

definition Shell_Exec :: "extern \<Rightarrow> string \<Rightarrow> string list \<Rightarrow> System \<Rightarrow> exec_result" where
  "Shell_Exec L path args sys =
     (case funcMap L (Base path) of
        Some execFunc \<Rightarrow>
          (case execFunc args sys of
             Returns res sys' \<Rightarrow> Ret res False sys'
           | Panics \<Rightarrow> ExecPanic)
      | None \<Rightarrow> Ret (- 1) True sys)"

text \<open>
  Modelled from the spec: \<^verbatim>\<open>System.Exec\<close>, which the dispatcher calls for an
  \<^verbatim>\<open>exec\<close> request and the sources do not contain. The spec has the command executed
  ``against the Command Table once'', an unknown command reported as such: the same lookup
  as \<^verbatim>\<open>Shell.Exec\<close>.
\<close>

definition System_Exec :: "extern \<Rightarrow> string \<Rightarrow> string list \<Rightarrow> System \<Rightarrow> exec_result" where
  "System_Exec L path args sys = Shell_Exec L path args sys"

section \<open>Channel opens: \<^verbatim>\<open>SSHSession.handleNewConn\<close>\<close>

text \<open>
  One turn of the loop over the channel opens. The events are the calls made on the new
  channel and on the network, in program order (the dial happens in a goroutine started
  last). Whether \<^verbatim>\<open>Accept\<close> and \<^verbatim>\<open>net.Dial\<close> succeed is decided outside the program and
  given as \<open>accept_ok\<close> and \<open>dial_ok\<close>. The type assertion \<^verbatim>\<open>.(string)\<close> on the value read
  from the port map panics when the value is not a string, in particular when the key is
  missing; nothing recovers the panic. What the two copies of the relay do is not modelled.
\<close>

record newChannel =
  ChannelType :: string
  ExtraData :: string

datatype RejectionReason = UnknownChannelType | Prohibited | ResourceShortage | ConnectionFailed

datatype conn_event =
    RejectChan RejectionReason string
  | AcceptChan
  | Dial string
  | Relay
  | GoHandleNewSession

datatype flow = Continue | Panic

definition handleNewChannel ::
  "viper \<Rightarrow> extern \<Rightarrow> bool \<Rightarrow> bool \<Rightarrow> newChannel \<Rightarrow> conn_event list \<times> flow" where
  "handleNewChannel cfg L accept_ok dial_ok nc =
     (if ChannelType nc = ''direct-tcpip'' \<or> ChannelType nc = ''forwarded-tcpip'' then
        (case Unmarshal_tunnelRequest L (ExtraData nc) of (treq, err) \<Rightarrow>
           let corrupt = (if err then [RejectChan UnknownChannelType ''Corrupt payload''] else [])
           in
           if ChannelType nc = ''forwarded-tcpip'' then
             (corrupt @ [RejectChan Prohibited ''Port forwarding disabled''], Continue)
           else if portRedirection cfg = ''disable'' then
             (corrupt @ [RejectChan Prohibited ''Port forwarding disabled''], Continue)
           else
             (case (if portRedirection cfg = ''map'' then
                      (case portRedirectionMap cfg (Itoa (int (RemotePort treq))) of
                         Some (IString h) \<Rightarrow> Some h
                       | Some IOther \<Rightarrow> None
                       | None \<Rightarrow> None)
                    else if portRedirection cfg = ''direct'' then
                      Some (RemoteHost treq @ '':'' @ Itoa (int (RemotePort treq)))
                    else Some [])
              of
                None \<Rightarrow> (corrupt, Panic)
              | Some host \<Rightarrow>
                  if 0 < length host then
                    (corrupt @ [AcceptChan]
                       @ (if accept_ok then []
                          else [RejectChan ResourceShortage ''Cannot create new channel''])
                       @ [Dial host]
                       @ (if dial_ok then [Relay]
                          else [RejectChan ConnectionFailed ''Cannot establish connection'']),
                     Continue)
                  else
                    (corrupt @ [RejectChan ConnectionFailed ''Malformed channel request''],
                     Continue)))
      else if ChannelType nc = ''session'' then ([GoHandleNewSession], Continue)
      else ([RejectChan UnknownChannelType ''unknown channel type''], Continue))"

text \<open>
  The loop: the channel opens in order, each with the outcome of its \<^verbatim>\<open>Accept\<close> and of
  its dial; a panic ends it.
\<close>

fun handleNewConn ::
  "viper \<Rightarrow> extern \<Rightarrow> (newChannel \<times> bool \<times> bool) list \<Rightarrow> conn_event list \<times> flow" where
  "handleNewConn cfg L [] = ([], Continue)"
| "handleNewConn cfg L ((nc, accept_ok, dial_ok) # rest) =
     (case handleNewChannel cfg L accept_ok dial_ok nc of
        (evs, Panic) \<Rightarrow> (evs, Panic)
      | (evs, Continue) \<Rightarrow>
          (case handleNewConn cfg L rest of (evs', fl) \<Rightarrow> (evs @ evs', fl)))"

section \<open>The channel dispatcher: \<^verbatim>\<open>SSHSession.handleNewSession\<close>\<close>

text \<open>
  The goroutine started by \<^verbatim>\<open>handleNewSession\<close> and the Shell goroutines it starts share
  the contexts (through pointers) and the channel \<^verbatim>\<open>quitSignal\<close>. The state holds
  \<^item> the fields of the session that the dispatcher reads and writes: \<open>user\<close>, \<open>s_sys\<close>
    (\<^verbatim>\<open>s.sys\<close>, a pointer or nil) and \<open>s_term\<close> (\<^verbatim>\<open>s.term\<close>);
  \<^item> the variable \<open>sh\<close> of \<^verbatim>\<open>handleNewSession\<close>, a pointer to a Shell or nil;
  \<^item> the store: the contexts and the Shells allocated so far, a pointer being an index;
  \<^item> the contents of \<open>quitSignal\<close>, a channel with a buffer of one value;
  \<^item> where the dispatcher stands, and the trace of the calls it and the Shells have made.
  Log output, the delay function and the session-recording hook are not modelled: they
  write to none of these.
\<close>

datatype shell_pc = NotStarted | Reading | Sending int | Finished

record Shell =
  sh_sys :: nat
  terminal :: bool
  pc :: shell_pc

datatype event =
    Reply bool
  | NewSystemEv nat int int
  | GoShell nat
  | GoSftp
  | GoSCP "string list"
  | ExecCmd string "string list"
  | ChannelWrite string
  | QuitSend int
  | TermSetSize nat int int
  | TermWrite nat string
  | CloseChannel nat

datatype status = Running | Returned | BlockedSend int | Panicked

record world =
  user :: string
  s_sys :: "nat option"
  s_term :: string
  sh :: "nat option"
  systems :: "System list"
  shells :: "Shell list"
  quitSignal :: "int list"
  disp :: status
  trace :: "event list"

record request =
  Type :: string
  Payload :: string

definition load :: "'a list \<Rightarrow> nat \<Rightarrow> 'a option" where
  "load xs a = (if a < length xs then Some (xs ! a) else None)"

definition emit :: "event list \<Rightarrow> world \<Rightarrow> world" where
  "emit evs w = w\<lparr>trace := trace w @ evs\<rparr>"

text \<open>
  A call of \<^verbatim>\<open>os.NewSystem\<close>: the new context is put in the store, and its address is
  returned.
\<close>

definition alloc :: "extern \<Rightarrow> viper \<Rightarrow> world \<Rightarrow> int \<Rightarrow> int \<Rightarrow> world \<times> nat" where
  "alloc L cfg w width height =
     (let a = length (systems w)
      in (emit [NewSystemEv a width height]
            (w\<lparr>systems := systems w @ [NewSystem L (user w) (hostname cfg) width height]\<rparr>),
          a))"

text \<open>
  \<^verbatim>\<open>Shell.SetSize\<close>, called by the dispatcher on the Shell \<open>k\<close>: it writes the two
  dimensions into the Shell's context and calls \<^verbatim>\<open>SetSize\<close> of the Shell's terminal. The
  terminal is nil until the Shell's goroutine has created it; the call on nil panics.
\<close>

definition SetSize :: "world \<Rightarrow> nat \<Rightarrow> int \<Rightarrow> int \<Rightarrow> world" where
  "SetSize w k width height =
     (case load (shells w) k of
        None \<Rightarrow> w\<lparr>disp := Panicked\<rparr>
      | Some shl \<Rightarrow>
          (case load (systems w) (sh_sys shl) of
             None \<Rightarrow> w\<lparr>disp := Panicked\<rparr>
           | Some sys \<Rightarrow>
               (let w1 = w\<lparr>systems :=
                           (systems w)[sh_sys shl := sys\<lparr>Width := width, Height := height\<rparr>]\<rparr>
                in if terminal shl then emit [TermSetSize k width height] w1
                   else w1\<lparr>disp := Panicked\<rparr>)))"

definition handle_pty_req :: "extern \<Rightarrow> viper \<Rightarrow> world \<Rightarrow> string \<Rightarrow> world" where
  "handle_pty_req L cfg w payload =
     (case Unmarshal_ptyRequest L payload of (ptyreq, err) \<Rightarrow>
        if err then emit [Reply False] w
        else (case alloc L cfg w (int (pty_Width ptyreq)) (int (pty_Height ptyreq)) of
                (w1, a) \<Rightarrow> emit [Reply True] (w1\<lparr>s_sys := Some a, s_term := pty_Term ptyreq\<rparr>)))"

definition handle_env :: "extern \<Rightarrow> world \<Rightarrow> string \<Rightarrow> world" where
  "handle_env L w payload =
     (case Unmarshal_envRequest L payload of (envReq, err) \<Rightarrow>
        if err then emit [Reply False] w else emit [Reply True] w)"

text \<open>
  Modelled from the spec: \<^verbatim>\<open>os.NewShell\<close> with the four arguments of the call in
  \<^verbatim>\<open>handleNewSession\<close>, which the sources do not contain (the \<^verbatim>\<open>NewShell\<close> among them
  takes eight). The spec has the Shell ``bound to this context'' and to the Quit Signal:
  the new Shell points to the context passed, and its terminal is not created yet.
\<close>

definition NewShell :: "nat \<Rightarrow> Shell" where
  "NewShell a = \<lparr>sh_sys = a, terminal = False, pc = NotStarted\<rparr>"

definition handle_shell :: "extern \<Rightarrow> viper \<Rightarrow> world \<Rightarrow> world" where
  "handle_shell L cfg w =
     (case (case s_sys w of
              None \<Rightarrow> (case alloc L cfg w 80 24 of (w1, a) \<Rightarrow> (w1\<lparr>s_sys := Some a\<rparr>, a))
            | Some a \<Rightarrow> (w, a))
      of (w1, a) \<Rightarrow>
        (let k = length (shells w1)
         in emit [GoShell k, Reply True]
              (w1\<lparr>shells := shells w1 @ [NewShell a], sh := Some k\<rparr>)))"

definition handle_subsystem :: "world \<Rightarrow> string \<Rightarrow> world" where
  "handle_subsystem w payload =
     (if length payload < 4 then w\<lparr>disp := Panicked\<rparr>
      else if drop 4 payload = ''sftp'' then emit [GoSftp, Reply True] w
      else emit [Reply False] w)"

definition handle_window_change :: "extern \<Rightarrow> world \<Rightarrow> string \<Rightarrow> world" where
  "handle_window_change L w payload =
     (case sh w of
        None \<Rightarrow> w
      | Some k \<Rightarrow>
          (case Unmarshal_winChgRequest L payload of (winChg, err) \<Rightarrow>
             SetSize (if err then emit [Reply False] w else w) k
               (int (win_Width winChg)) (int (win_Height winChg))))"

text \<open>
  The send \<^verbatim>\<open>quitSignal <- n\<close> of the dispatcher. When the buffer holds a value the send
  waits for a receiver; the dispatcher is the only one, so it waits for ever.
\<close>

definition handle_exec :: "extern \<Rightarrow> viper \<Rightarrow> world \<Rightarrow> string \<Rightarrow> world" where
  "handle_exec L cfg w payload =
     (if length payload < 4 then w\<lparr>disp := Panicked\<rparr>
      else
        (let cmd = drop 4 payload in
         case Split cmd CHR '' '' of
           [] \<Rightarrow> w\<lparr>disp := Panicked\<rparr>
         | arg0 # args \<Rightarrow>
             (case (case s_sys w of None \<Rightarrow> alloc L cfg w 80 24 | Some a \<Rightarrow> (w, a)) of
                (w1, a) \<Rightarrow>
                  if HasPrefix arg0 ''scp'' then emit [GoSCP args, Reply True] w1
                  else
                    (case load (systems w1) a of
                       None \<Rightarrow> w1\<lparr>disp := Panicked\<rparr>
                     | Some sys \<Rightarrow>
                         (case System_Exec L arg0 args sys of
                            ExecPanic \<Rightarrow> (emit [ExecCmd arg0 args] w1)\<lparr>disp := Panicked\<rparr>
                          | Ret n err sys' \<Rightarrow>
                              (let w2 = emit
                                     (ExecCmd arg0 args #
                                        (if err
                                         then [ChannelWrite
                                                 (cmd @ '': command not found'' @ [CHR 0x0D, CHR 0x0A])]
                                         else []))
                                     (w1\<lparr>systems := (systems w1)[a := sys']\<rparr>)
                               in if quitSignal w2 = []
                                  then emit [QuitSend n, Reply True] (w2\<lparr>quitSignal := [n]\<rparr>)
                                  else w2\<lparr>disp := BlockedSend n\<rparr>))))))"

text \<open>The body of the \<^verbatim>\<open>switch\<close> on the request type.\<close>

definition handleRequest :: "extern \<Rightarrow> viper \<Rightarrow> world \<Rightarrow> request \<Rightarrow> world" where
  "handleRequest L cfg w req =
     (if Type req = ''winadj@putty.projects.tartarus.org''
         \<or> Type req = ''simple@putty.projects.tartarus.org'' then w
      else if Type req = ''pty-req'' then handle_pty_req L cfg w (Payload req)
      else if Type req = ''env'' then handle_env L w (Payload req)
      else if Type req = ''shell'' then handle_shell L cfg w
      else if Type req = ''subsystem'' then handle_subsystem w (Payload req)
      else if Type req = ''window-change'' then handle_window_change L w (Payload req)
      else if Type req = ''exec'' then handle_exec L cfg w (Payload req)
      else w)"

section \<open>The interactive shell: \<^verbatim>\<open>Shell.HandleRequest\<close>\<close>

text \<open>
  One turn of the command loop. \<^verbatim>\<open>ReadLine\<close> has returned a line and an error (its
  message, or none). The turn ends in the next turn (\<open>Loop\<close>) or in the return of the
  function (\<open>Return\<close>), after the send of a value on \<^verbatim>\<open>termSignal\<close> if there is one; both
  carry the context after the turn and what was written to the terminal. A panic of a
  command is recovered by the deferred function, which sends 1.
\<close>

datatype turn = Loop System "string list" | Return "int option" System "string list"

definition shell_turn :: "extern \<Rightarrow> System \<Rightarrow> string \<times> string option \<Rightarrow> turn" where
  "shell_turn L sys rd =
     (case rd of (line, err) \<Rightarrow>
        let cmd = TrimSpace line in
        case err of
          Some msg \<Rightarrow> if msg = ''EOF'' then Return (Some 0) sys [] else Return None sys []
        | None \<Rightarrow>
            if TrimSpace cmd = [] then Loop sys []
            else if cmd = ''logout'' \<or> cmd = ''quit'' then Return (Some 0) sys []
            else if HasPrefix cmd ''cd'' then
              (case Split cmd CHR '' '' of
                 arg0 # arg1 # rest \<Rightarrow>
                   (case Chdir L sys arg1 of (sys', failed) \<Rightarrow>
                      if failed
                      then Loop sys'
                             [''-bash: cd: '' @ arg1 @ '': No such file or directory'' @ [CHR 0x0A]]
                      else Loop sys' [])
               | _ \<Rightarrow> Loop sys [])
            else if HasPrefix cmd ''export'' then Loop sys []
            else
              (case SplitN2 cmd CHR '' '' of
                 [] \<Rightarrow> Return (Some 1) sys []
               | arg0 # args \<Rightarrow>
                   (case Shell_Exec L arg0 args sys of
                      ExecPanic \<Rightarrow> Return (Some 1) sys []
                    | Ret n failed sys' \<Rightarrow>
                        if failed
                        then Loop sys' [arg0 @ '': command not found'' @ [CHR 0x0A]]
                        else Loop (sys'\<lparr>envVars := (envVars sys')(''?'' \<mapsto> string_of_rune n)\<rparr>) [])))"

section \<open>The dispatcher and its Shells together\<close>

text \<open>
  The goroutines advance one at a time. An action is what the scheduler and the peer
  decide:
  \<^item> \<open>Recv r\<close>: the \<^verbatim>\<open>select\<close> of the dispatcher takes a request from the request stream
    (none when the stream has ended);
  \<^item> \<open>RecvQuit\<close>: the \<^verbatim>\<open>select\<close> takes the value in \<open>quitSignal\<close>; the dispatcher returns and
    its deferred \<^verbatim>\<open>closeChannel\<close> sends the value as \<^verbatim>\<open>uint32\<close>;
  \<^item> \<open>ShellStart k\<close>: the goroutine of Shell \<open>k\<close> starts and creates its terminal;
  \<^item> \<open>ShellRead k rd\<close>: \<^verbatim>\<open>ReadLine\<close> of Shell \<open>k\<close> returns \<open>rd\<close>, and the turn runs;
  \<^item> \<open>ShellSend k\<close>: the send of Shell \<open>k\<close>, which found the buffer full, goes through.
  \<open>step\<close> is \<open>None\<close> when the action cannot happen in the state. A panic of the dispatcher
  is not recovered and ends the process: nothing happens after it.
\<close>

datatype action =
    Recv "request option"
  | RecvQuit
  | ShellStart nat
  | ShellRead nat "string \<times> string option"
  | ShellSend nat

definition shell_send :: "world \<Rightarrow> nat \<Rightarrow> Shell \<Rightarrow> int option \<Rightarrow> world" where
  "shell_send w k shl sig =
     (case sig of
        None \<Rightarrow> w\<lparr>shells := (shells w)[k := shl\<lparr>pc := Finished\<rparr>]\<rparr>
      | Some n \<Rightarrow>
          if quitSignal w = []
          then emit [QuitSend n]
                 (w\<lparr>quitSignal := [n], shells := (shells w)[k := shl\<lparr>pc := Finished\<rparr>]\<rparr>)
          else w\<lparr>shells := (shells w)[k := shl\<lparr>pc := Sending n\<rparr>]\<rparr>)"

definition shell_read :: "extern \<Rightarrow> world \<Rightarrow> nat \<Rightarrow> string \<times> string option \<Rightarrow> world option" where
  "shell_read L w k rd =
     (case load (shells w) k of
        None \<Rightarrow> None
      | Some shl \<Rightarrow>
          if pc shl = Reading then
            (case load (systems w) (sh_sys shl) of
               None \<Rightarrow> None
             | Some sys \<Rightarrow>
                 (case shell_turn L sys rd of
                    Loop sys' out \<Rightarrow>
                      Some (emit (map (TermWrite k) out)
                              (w\<lparr>systems := (systems w)[sh_sys shl := sys']\<rparr>))
                  | Return sig sys' out \<Rightarrow>
                      Some (shell_send
                              (emit (map (TermWrite k) out)
                                 (w\<lparr>systems := (systems w)[sh_sys shl := sys']\<rparr>))
                              k shl sig)))
          else None)"

definition step :: "extern \<Rightarrow> viper \<Rightarrow> world \<Rightarrow> action \<Rightarrow> world option" where
  "step L cfg w a =
     (if disp w = Panicked then None
      else case a of
        Recv r \<Rightarrow>
          if disp w = Running
          then (case r of
                  None \<Rightarrow> Some (w\<lparr>disp := Returned\<rparr>)
                | Some req \<Rightarrow> Some (handleRequest L cfg w req))
          else None
      | RecvQuit \<Rightarrow>
          if disp w = Running
          then (case quitSignal w of
                  [] \<Rightarrow> None
                | ret # q \<Rightarrow>
                    Some (emit [CloseChannel (nat (ret mod 2 ^ 32))]
                            (w\<lparr>quitSignal := q, disp := Returned\<rparr>)))
          else None
      | ShellStart k \<Rightarrow>
          (case load (shells w) k of
             None \<Rightarrow> None
           | Some shl \<Rightarrow>
               if pc shl = NotStarted
               then Some (w\<lparr>shells := (shells w)[k := shl\<lparr>terminal := True, pc := Reading\<rparr>]\<rparr>)
               else None)
      | ShellRead k rd \<Rightarrow> shell_read L w k rd
      | ShellSend k \<Rightarrow>
          (case load (shells w) k of
             None \<Rightarrow> None
           | Some shl \<Rightarrow>
               (case pc shl of
                  Sending n \<Rightarrow>
                    if quitSignal w = []
                    then Some (emit [QuitSend n]
                                 (w\<lparr>quitSignal := [n],
                                    shells := (shells w)[k := shl\<lparr>pc := Finished\<rparr>]\<rparr>))
                    else None
                | _ \<Rightarrow> None)))"

fun run :: "extern \<Rightarrow> viper \<Rightarrow> world \<Rightarrow> action list \<Rightarrow> world option" where
  "run L cfg w [] = Some w"
| "run L cfg w (a # as) =
     (case step L cfg w a of None \<Rightarrow> None | Some w' \<Rightarrow> run L cfg w' as)"

text \<open>
  The state in which the dispatcher of a new channel starts: no Shell, an empty
  \<open>quitSignal\<close>, and the session as the earlier channels left it.
\<close>

definition new_channel :: "string \<Rightarrow> nat option \<Rightarrow> string \<Rightarrow> System list \<Rightarrow> world" where
  "new_channel usr ssys trm syss =
     \<lparr>user = usr, s_sys = ssys, s_term = trm, sh = None, systems = syss, shells = [],
      quitSignal = [], disp = Running, trace = []\<rparr>"

text \<open>Counting in a trace.\<close>

fun is_QuitSend :: "event \<Rightarrow> bool" where
  "is_QuitSend (QuitSend n) = True"
| "is_QuitSend e = False"

fun is_ExecCmd :: "event \<Rightarrow> bool" where
  "is_ExecCmd (ExecCmd p args) = True"
| "is_ExecCmd e = False"

fun is_GoShell :: "event \<Rightarrow> bool" where
  "is_GoShell (GoShell k) = True"
| "is_GoShell e = False"

fun is_NewSystem :: "event \<Rightarrow> bool" where
  "is_NewSystem (NewSystemEv a width height) = True"
| "is_NewSystem e = False"

definition quit_writes :: "world \<Rightarrow> nat" where
  "quit_writes w = length (filter is_QuitSend (trace w))"

definition commands_run :: "world \<Rightarrow> nat" where
  "commands_run w = length (filter is_ExecCmd (trace w))"

definition shells_started :: "world \<Rightarrow> nat" where
  "shells_started w = length (filter is_GoShell (trace w))"

definition contexts_created :: "world \<Rightarrow> nat" where
  "contexts_created w = length (filter is_NewSystem (trace w))"



section \<open>Data to evaluate on\<close>

text \<open>
  A configuration and a user table to evaluate on: retry enabled, unknown users allowed,
  one known user \<open>root\<close> with the stored password \<open>secret\<close>.
\<close>

definition cfg0 :: viper where
  "cfg0 = \<lparr>hostname = ''spr'', allowRandomUser = True, allowRetryLogin = True,
           portRedirection = ''map'',
           portRedirectionMap = [''22'' \<mapsto> IString ''10.0.0.5:22'']\<rparr>"

definition users0 :: "string \<Rightarrow> string \<times> bool" where
  "users0 u = (if u = ''root'' then (''secret'', True) else ([], False))"

text \<open>
  The collaborators to evaluate on: the wire decoders for \<^verbatim>\<open>ssh.Unmarshal\<close>, the home
  directory \<^verbatim>\<open>/root\<close> for every user, a Command Table with the commands \<^verbatim>\<open>ls\<close>, which
  returns 0, and \<^verbatim>\<open>false\<close>, which returns 1, both leaving the context alone, and a
  \<^verbatim>\<open>Chdir\<close> that always fails.
\<close>

definition L0 :: extern where
  "L0 = \<lparr>Unmarshal_envRequest = wire_envRequest,
          Unmarshal_ptyRequest = wire_ptyRequest,
          Unmarshal_winChgRequest = wire_winChgRequest,
          Unmarshal_tunnelRequest = wire_tunnelRequest,
          Homedir = (\<lambda>u. ''/root''),
          funcMap = [''ls'' \<mapsto> (\<lambda>args sys. Returns 0 sys),
                     ''false'' \<mapsto> (\<lambda>args sys. Returns 1 sys)],
          Chdir = (\<lambda>sys p. (sys, True))\<rparr>"

text \<open>The encoding of a \<^verbatim>\<open>uint32\<close> below 256 and of a string shorter than 256 bytes.\<close>

definition u32 :: "nat \<Rightarrow> string" where
  "u32 n = [CHR 0x00, CHR 0x00, CHR 0x00, char_of n]"

definition wstr :: "string \<Rightarrow> string" where
  "wstr s = u32 (length s) @ s"

text \<open>
  A \<^verbatim>\<open>direct-tcpip\<close> open for port 80 of host \<^verbatim>\<open>h\<close>, from port 9 of host \<^verbatim>\<open>c\<close>; port 80 is
  not a key of the port map of \<open>cfg0\<close>.
\<close>

definition open80 :: newChannel where
  "open80 = \<lparr>ChannelType = ''direct-tcpip'',
              ExtraData = wstr ''h'' @ u32 80 @ wstr ''c'' @ u32 9\<rparr>"

text \<open>
  Requests: a shell request; a \<^verbatim>\<open>pty-req\<close> for an \<^verbatim>\<open>xterm\<close> of 100 by 30 and one
  with an empty payload; an \<^verbatim>\<open>env\<close>
  request \<^verbatim>\<open>FOO=bar\<close> and one with an empty payload; \<^verbatim>\<open>exec\<close> requests for \<^verbatim>\<open>ls\<close>, for
  \<^verbatim>\<open>false\<close>, for
  \<^verbatim>\<open>scp -t /tmp\<close> and for \<^verbatim>\<open>scpfoo -t /tmp\<close>; a \<^verbatim>\<open>window-change\<close> request as RFC 4254
  lays it out, 120 columns, 40 rows and the two pixel sizes, sixteen bytes.
\<close>

definition req_shell :: request where
  "req_shell = \<lparr>Type = ''shell'', Payload = []\<rparr>"

definition req_pty :: request where
  "req_pty = \<lparr>Type = ''pty-req'',
              Payload = wstr ''xterm'' @ u32 100 @ u32 30 @ u32 0 @ u32 0 @ wstr []\<rparr>"

definition req_pty_empty :: request where
  "req_pty_empty = \<lparr>Type = ''pty-req'', Payload = []\<rparr>"

definition req_env :: request where
  "req_env = \<lparr>Type = ''env'', Payload = wstr ''FOO'' @ wstr ''bar''\<rparr>"

definition req_env_empty :: request where
  "req_env_empty = \<lparr>Type = ''env'', Payload = []\<rparr>"

definition req_exec_ls :: request where
  "req_exec_ls = \<lparr>Type = ''exec'', Payload = wstr ''ls''\<rparr>"

definition req_exec_false :: request where
  "req_exec_false = \<lparr>Type = ''exec'', Payload = wstr ''false''\<rparr>"

definition req_exec_scp :: request where
  "req_exec_scp = \<lparr>Type = ''exec'', Payload = wstr ''scp -t /tmp''\<rparr>"

definition req_exec_scpfoo :: request where
  "req_exec_scpfoo = \<lparr>Type = ''exec'', Payload = wstr ''scpfoo -t /tmp''\<rparr>"

definition req_winch :: request where
  "req_winch = \<lparr>Type = ''window-change'', Payload = u32 120 @ u32 40 @ u32 0 @ u32 0\<rparr>"

text \<open>The dispatcher of the first channel of a session of \<^verbatim>\<open>root\<close>.\<close>

definition w0 :: world where
  "w0 = new_channel ''root'' None [] []"

text \<open>A context as the dispatcher creates it for \<^verbatim>\<open>root\<close> by default.\<close>

definition sys0 :: System where
  "sys0 = NewSystem L0 ''root'' ''spr'' 80 24"

text \<open>The state after a shell request, with the goroutine of its Shell started.\<close>

definition w_shell :: world where
  "w_shell =
     (case run L0 cfg0 w0 [Recv (Some req_shell), ShellStart 0] of
        Some w \<Rightarrow> w
      | None \<Rightarrow> w0)"

section \<open>Properties of the password policy\<close>

lemma deception_step:
  assumes "deception cfg IsUserExist (usr, pass)" and "allowRetryLogin cfg"
  shows "PasswordChallenge cfg IsUserExist t usr pass =
           (if t = 1 then (Accept, t) else (Reject, t - 1))"
proof (cases "IsUserExist usr")
  case (Pair stpass userExists)
  with assms show ?thesis
    by (auto simp: PasswordChallenge_def deception_def split: if_splits)
qed

text \<open>
  When the stored password is the wildcard and the submitted password is the wildcard too,
  the first test accepts: the deception branch is entered by a known user exactly when the
  password differs from the stored one.
\<close>

lemma deception_iff:
  "deception cfg IsUserExist (usr, pass) \<longleftrightarrow>
     (snd (IsUserExist usr) \<and> fst (IsUserExist usr) \<noteq> pass) \<or>
     (\<not> snd (IsUserExist usr) \<and> allowRandomUser cfg)"
  by (cases "IsUserExist usr") (auto simp: deception_def)

text \<open>
  Claim C1. With allow-retry-until-success set and the counter seeded to 3, three attempts
  that each enter the deception branch are answered reject, reject, accept, whatever the
  user names and passwords.
\<close>

theorem C1_retry_three:
  assumes "allowRetryLogin cfg"
    and "deception cfg IsUserExist a1"
    and "deception cfg IsUserExist a2"
    and "deception cfg IsUserExist a3"
  shows "attempts cfg IsUserExist 3 [a1, a2, a3] = [Reject, Reject, Accept]"
proof -
  obtain u1 p1 u2 p2 u3 p3 where a: "a1 = (u1, p1)" "a2 = (u2, p2)" "a3 = (u3, p3)"
    by (metis surj_pair)
  have s1: "PasswordChallenge cfg IsUserExist 3 u1 p1 = (Reject, 2)"
    using assms(1,2) by (simp add: a deception_step)
  have s2: "PasswordChallenge cfg IsUserExist 2 u2 p2 = (Reject, 1)"
    using assms(1,3) by (simp add: a deception_step)
  have s3: "PasswordChallenge cfg IsUserExist 1 u3 p3 = (Accept, 1)"
    using assms(1,4) by (simp add: a deception_step)
  show ?thesis by (simp add: a s1 s2 s3)
qed

theorem C1_retry_three_witness:
  "allowRetryLogin cfg0 \<and> deception cfg0 users0 (''root'', ''123456'')
     \<and> deception cfg0 users0 (''admin'', ''admin'')
     \<and> deception cfg0 users0 (''root'', ''toor'')
     \<and> attempts cfg0 users0 3 [(''root'', ''123456''), (''admin'', ''admin''), (''root'', ''toor'')]
         = [Reject, Reject, Accept]"
proof -
  have h0: "allowRetryLogin cfg0" by (simp add: cfg0_def)
  have h1: "deception cfg0 users0 (''root'', ''123456'')"
    by (simp add: deception_def users0_def cfg0_def)
  have h2: "deception cfg0 users0 (''admin'', ''admin'')"
    by (simp add: deception_def users0_def cfg0_def)
  have h3: "deception cfg0 users0 (''root'', ''toor'')"
    by (simp add: deception_def users0_def cfg0_def)
  show ?thesis using h0 h1 h2 h3 C1_retry_three [OF h0 h1 h2 h3] by simp
qed

text \<open>
  Claim C4. A known user whose submitted password equals the stored one, which is not the
  wildcard, is accepted by that very call, whatever the two settings and the counter are;
  the counter is left as it was.
\<close>

theorem C4_exact_password:
  assumes "IsUserExist usr = (stpass, True)" and "pass = stpass" and "stpass \<noteq> ''*''"
  shows "PasswordChallenge cfg IsUserExist triesLeft usr pass = (Accept, triesLeft)"
  using assms by (simp add: PasswordChallenge_def)

theorem C4_exact_password_witness:
  "users0 ''root'' = (''secret'', True) \<and> ''secret'' \<noteq> ''*''
     \<and> PasswordChallenge (cfg0\<lparr>allowRandomUser := False\<rparr>) users0 1 ''root'' ''secret'' = (Accept, 1)"
proof -
  have h1: "users0 ''root'' = (''secret'', True)" by (simp add: users0_def)
  have h2: "''secret'' = ''secret''" by simp
  have h3: "''secret'' \<noteq> ''*''" by simp
  show ?thesis
    using h1 h3
      C4_exact_password [of users0 "''root''" "''secret''" "''secret''"
        "cfg0\<lparr>allowRandomUser := False\<rparr>" 1, OF h1 h2 h3]
    by simp
qed

section \<open>Properties of the channel opens\<close>

lemma map_unmapped_port:
  assumes "ChannelType nc = ''direct-tcpip''"
    and "portRedirection cfg = ''map''"
    and "Unmarshal_tunnelRequest L (ExtraData nc) = (treq, err)"
    and "portRedirectionMap cfg (Itoa (int (RemotePort treq))) = None"
  shows "handleNewChannel cfg L accept_ok dial_ok nc =
           (if err then [RejectChan UnknownChannelType ''Corrupt payload''] else [], Panic)"
  using assms by (simp add: handleNewChannel_def)

text \<open>
  Claim C3. A \<^verbatim>\<open>direct-tcpip\<close> open under the policy \<^verbatim>\<open>map\<close> whose port is not a key of
  the port map should be rejected without a dial. The code dials nothing, but it does not
  reject either: the open for port 80, well-formed, against a map with the one key 22, makes
  no call on the channel and ends in the panic of the type assertion.
\<close>

theorem C3_unmapped_port_panics:
  "portRedirection cfg0 = ''map''
   \<and> portRedirectionMap cfg0 (Itoa 80) = None
   \<and> RemotePort (fst (wire_tunnelRequest (ExtraData open80))) = 80
   \<and> snd (wire_tunnelRequest (ExtraData open80)) = False
   \<and> handleNewChannel cfg0 L0 True True open80 = ([], Panic)"
  by code_simp

section \<open>Properties of the dispatcher\<close>

lemma Split_not_Nil: "Split s sep \<noteq> []"
  by (induction s) (auto split: list.splits)

text \<open>
  Claim C2, as the code has it. The dispatcher keeps no record of a granted terminal mode:
  a shell request that arrives after one was granted is answered like the first, with
  success, and starts one more Shell, which replaces the Shell the dispatcher refers to.
\<close>

theorem C2_second_shell_granted:
  assumes "disp w = Running" and "sh w = Some k" and "Type req = ''shell''"
  shows "\<exists>w'. step L cfg w (Recv (Some req)) = Some w'
           \<and> last (trace w') = Reply True
           \<and> shells_started w' = Suc (shells_started w)
           \<and> length (shells w') = Suc (length (shells w))
           \<and> sh w' = Some (length (shells w))
           \<and> disp w' = Running"
  using assms
  by (simp add: step_def handleRequest_def handle_shell_def alloc_def emit_def
      shells_started_def Let_def split: option.splits)

theorem C2_second_shell_granted_witness:
  "disp w_shell = Running \<and> sh w_shell = Some 0 \<and> Type req_shell = ''shell''
   \<and> (\<exists>w'. step L0 cfg0 w_shell (Recv (Some req_shell)) = Some w'
           \<and> last (trace w') = Reply True
           \<and> shells_started w' = Suc (shells_started w_shell)
           \<and> length (shells w') = Suc (length (shells w_shell))
           \<and> sh w' = Some (length (shells w_shell))
           \<and> disp w' = Running)"
proof -
  have h1: "disp w_shell = Running" by code_simp
  have h2: "sh w_shell = Some 0" by code_simp
  have h3: "Type req_shell = ''shell''" by code_simp
  show ?thesis
    using h1 h2 h3 C2_second_shell_granted [OF h1 h2 h3, of L0 cfg0] by simp
qed

text \<open>
  The claim as stated fails on two shell requests in a row: both are answered with success
  and two Shells are started.
\<close>

theorem C2_second_shell_counterexample:
  "map_option trace (run L0 cfg0 w0 [Recv (Some req_shell), Recv (Some req_shell)])
     = Some [NewSystemEv 0 80 24, GoShell 0, Reply True, GoShell 1, Reply True]"
  by code_simp

text \<open>
  What an \<^verbatim>\<open>exec\<close> request does about the context: with a context in the session it
  creates none and runs the command on that one; without, it creates a default context,
  uses it for this request and does not put it in the session.
\<close>

lemma exec_with_context:
  assumes "s_sys w = Some a"
  shows "s_sys (handle_exec L cfg w p) = Some a
       \<and> contexts_created (handle_exec L cfg w p) = contexts_created w"
  using assms
  by (auto simp: handle_exec_def emit_def contexts_created_def Let_def
      split: option.splits list.splits exec_result.splits)

lemma exec_runs_on_context:
  assumes "s_sys w = Some a" and "4 \<le> length p"
    and "Split (drop 4 p) CHR '' '' = arg0 # args" and "\<not> HasPrefix arg0 ''scp''"
    and "load (systems w) a = Some sys" and "System_Exec L arg0 args sys = Ret n err sys'"
  shows "systems (handle_exec L cfg w p) = (systems w)[a := sys']
       \<and> ExecCmd arg0 args \<in> set (trace (handle_exec L cfg w p))"
  using assms
  by (simp add: handle_exec_def emit_def Let_def)

lemma exec_no_context:
  assumes "s_sys w = None" and "4 \<le> length p"
  shows "s_sys (handle_exec L cfg w p) = None
       \<and> contexts_created (handle_exec L cfg w p) = Suc (contexts_created w)
       \<and> length (systems (handle_exec L cfg w p)) = Suc (length (systems w))
       \<and> take (length (systems w)) (systems (handle_exec L cfg w p)) = systems w"
proof (cases "Split (drop 4 p) CHR '' ''")
  case Nil
  then show ?thesis by (simp add: Split_not_Nil)
next
  case (Cons arg0 args)
  show ?thesis
  proof (cases "HasPrefix arg0 ''scp''")
    case True
    with assms Cons show ?thesis
      by (simp add: handle_exec_def alloc_def emit_def contexts_created_def Let_def)
  next
    case False
    show ?thesis
    proof (cases "System_Exec L arg0 args (NewSystem L (user w) (hostname cfg) 80 24)")
      case (Ret n err sys')
      with assms Cons False show ?thesis
        by (simp add: handle_exec_def alloc_def emit_def contexts_created_def Let_def load_def)
    next
      case ExecPanic
      with assms Cons False show ?thesis
        by (simp add: handle_exec_def alloc_def emit_def contexts_created_def Let_def load_def)
    qed
  qed
qed

text \<open>
  Claim C6, as the code has it. Let \<open>w'\<close> be the state after a request.
  \<^item> A shell request creates the context lazily: when the session has none it creates one
    of 80 by 24 and puts it in the session; when the session has one it creates none and
    leaves it in place. In both cases the new Shell is bound to the session's context.
  \<^item> An \<^verbatim>\<open>exec\<close> request on a session with a context creates none and leaves it in
    place, and a command other than \<^verbatim>\<open>scp\<close> is run on that very context. On a session
    without a context it creates one for this request and does not put it in the session,
    which still has none afterwards.
  \<^item> A \<^verbatim>\<open>pty-req\<close> whose payload parses creates a context of the requested size every
    time and puts it in the place of the session's, whether there was one or not; one
    whose payload does not parse is answered with failure and changes nothing else.
\<close>

theorem C6_context_creation:
  assumes "w' = handleRequest L cfg w req"
  shows "(Type req = ''shell'' \<and> s_sys w = None \<longrightarrow>
            s_sys w' = Some (length (systems w))
            \<and> contexts_created w' = Suc (contexts_created w)
            \<and> systems w' = systems w @ [NewSystem L (user w) (hostname cfg) 80 24]
            \<and> last (shells w') = NewShell (length (systems w)))
       \<and> (Type req = ''shell'' \<and> s_sys w = Some a \<longrightarrow>
            s_sys w' = Some a
            \<and> contexts_created w' = contexts_created w
            \<and> systems w' = systems w
            \<and> last (shells w') = NewShell a)
       \<and> (Type req = ''exec'' \<and> s_sys w = Some a \<longrightarrow>
            s_sys w' = Some a
            \<and> contexts_created w' = contexts_created w)
       \<and> (Type req = ''exec'' \<and> s_sys w = Some a \<and> 4 \<le> length (Payload req)
            \<and> Split (drop 4 (Payload req)) CHR '' '' = prog # args
            \<and> \<not> HasPrefix prog ''scp''
            \<and> load (systems w) a = Some sys
            \<and> System_Exec L prog args sys = Ret n err sys' \<longrightarrow>
            systems w' = (systems w)[a := sys']
            \<and> ExecCmd prog args \<in> set (trace w'))
       \<and> (Type req = ''exec'' \<and> s_sys w = None \<and> 4 \<le> length (Payload req) \<longrightarrow>
            s_sys w' = None
            \<and> contexts_created w' = Suc (contexts_created w)
            \<and> length (systems w') = Suc (length (systems w))
            \<and> take (length (systems w)) (systems w') = systems w)
       \<and> (Type req = ''pty-req'' \<and> Unmarshal_ptyRequest L (Payload req) = (ptyreq, False) \<longrightarrow>
            s_sys w' = Some (length (systems w))
            \<and> contexts_created w' = Suc (contexts_created w)
            \<and> systems w' =
                systems w @ [NewSystem L (user w) (hostname cfg)
                               (int (pty_Width ptyreq)) (int (pty_Height ptyreq))])
       \<and> (Type req = ''pty-req'' \<and> snd (Unmarshal_ptyRequest L (Payload req)) \<longrightarrow>
            w' = emit [Reply False] w)"
proof -
  have shell: "Type req = ''shell'' \<Longrightarrow> w' = handle_shell L cfg w"
    and exec: "Type req = ''exec'' \<Longrightarrow> w' = handle_exec L cfg w (Payload req)"
    and pty: "Type req = ''pty-req'' \<Longrightarrow> w' = handle_pty_req L cfg w (Payload req)"
    using assms by (simp_all add: handleRequest_def)
  have c1: "Type req = ''shell'' \<and> s_sys w = None \<longrightarrow>
            s_sys w' = Some (length (systems w))
            \<and> contexts_created w' = Suc (contexts_created w)
            \<and> systems w' = systems w @ [NewSystem L (user w) (hostname cfg) 80 24]
            \<and> last (shells w') = NewShell (length (systems w))"
    using shell
    by (auto simp: handle_shell_def alloc_def emit_def contexts_created_def Let_def)
  have c2: "Type req = ''shell'' \<and> s_sys w = Some a \<longrightarrow>
            s_sys w' = Some a
            \<and> contexts_created w' = contexts_created w
            \<and> systems w' = systems w
            \<and> last (shells w') = NewShell a"
    using shell
    by (auto simp: handle_shell_def emit_def contexts_created_def Let_def)
  have c3: "Type req = ''exec'' \<and> s_sys w = Some a \<longrightarrow>
            s_sys w' = Some a
            \<and> contexts_created w' = contexts_created w"
    using exec exec_with_context [of w a L cfg "Payload req"] by auto
  have c4: "Type req = ''exec'' \<and> s_sys w = Some a \<and> 4 \<le> length (Payload req)
            \<and> Split (drop 4 (Payload req)) CHR '' '' = prog # args
            \<and> \<not> HasPrefix prog ''scp''
            \<and> load (systems w) a = Some sys
            \<and> System_Exec L prog args sys = Ret n err sys' \<longrightarrow>
            systems w' = (systems w)[a := sys']
            \<and> ExecCmd prog args \<in> set (trace w')"
    using exec exec_runs_on_context [of w a "Payload req" prog args sys L n err sys' cfg]
    by auto
  have c5: "Type req = ''exec'' \<and> s_sys w = None \<and> 4 \<le> length (Payload req) \<longrightarrow>
            s_sys w' = None
            \<and> contexts_created w' = Suc (contexts_created w)
            \<and> length (systems w') = Suc (length (systems w))
            \<and> take (length (systems w)) (systems w') = systems w"
    using exec exec_no_context [of w "Payload req" L cfg] by auto
  have c6: "Type req = ''pty-req'' \<and> Unmarshal_ptyRequest L (Payload req) = (ptyreq, False) \<longrightarrow>
            s_sys w' = Some (length (systems w))
            \<and> contexts_created w' = Suc (contexts_created w)
            \<and> systems w' =
                systems w @ [NewSystem L (user w) (hostname cfg)
                               (int (pty_Width ptyreq)) (int (pty_Height ptyreq))]"
    using pty
    by (auto simp: handle_pty_req_def alloc_def emit_def contexts_created_def Let_def)
  have c7: "Type req = ''pty-req'' \<and> snd (Unmarshal_ptyRequest L (Payload req)) \<longrightarrow>
            w' = emit [Reply False] w"
    using pty by (auto simp: handle_pty_req_def split: prod.splits)
  from c1 c2 c3 c4 c5 c6 c7 show ?thesis by blast
qed

theorem C6_context_creation_witness:
  "s_sys w0 = None \<and> s_sys w_shell = Some 0 \<and> systems w_shell = [sys0]
   \<and> s_sys (handleRequest L0 cfg0 w0 req_shell) = Some 0
   \<and> contexts_created (handleRequest L0 cfg0 w0 req_shell) = Suc (contexts_created w0)
   \<and> systems (handleRequest L0 cfg0 w0 req_shell) = [sys0]
   \<and> s_sys (handleRequest L0 cfg0 w_shell req_shell) = Some 0
   \<and> contexts_created (handleRequest L0 cfg0 w_shell req_shell) = contexts_created w_shell
   \<and> systems (handleRequest L0 cfg0 w_shell req_shell) = [sys0]
   \<and> last (shells (handleRequest L0 cfg0 w_shell req_shell)) = NewShell 0
   \<and> s_sys (handleRequest L0 cfg0 w_shell req_exec_ls) = Some 0
   \<and> contexts_created (handleRequest L0 cfg0 w_shell req_exec_ls) = contexts_created w_shell
   \<and> systems (handleRequest L0 cfg0 w_shell req_exec_ls) = [sys0]
   \<and> ExecCmd ''ls'' [] \<in> set (trace (handleRequest L0 cfg0 w_shell req_exec_ls))
   \<and> s_sys (handleRequest L0 cfg0 w0 req_exec_scp) = None
   \<and> contexts_created (handleRequest L0 cfg0 w0 req_exec_scp) = Suc (contexts_created w0)
   \<and> s_sys (handleRequest L0 cfg0 w_shell req_pty) = Some 1
   \<and> contexts_created (handleRequest L0 cfg0 w_shell req_pty) = Suc (contexts_created w_shell)
   \<and> systems (handleRequest L0 cfg0 w_shell req_pty)
        = [sys0, NewSystem L0 ''root'' ''spr'' 100 30]
   \<and> handleRequest L0 cfg0 w_shell req_pty_empty = emit [Reply False] w_shell"
proof -
  have t: "Type req_shell = ''shell''" "Type req_exec_ls = ''exec''"
    "Type req_exec_scp = ''exec''" "Type req_pty = ''pty-req''" "Type req_pty_empty = ''pty-req''"
    by (simp_all add: req_shell_def req_exec_ls_def req_exec_scp_def req_pty_def
        req_pty_empty_def)
  have n: "s_sys w0 = None" "systems w0 = []" "user w0 = ''root''"
    by (simp_all add: w0_def new_channel_def)
  have s: "s_sys w_shell = Some 0" by code_simp
  have u: "user w_shell = ''root''" by code_simp
  have h: "hostname cfg0 = ''spr''" by (simp add: cfg0_def)
  have ss: "systems w_shell = [sys0]"
    by (simp add: w_shell_def w0_def new_channel_def step_def handleRequest_def
        handle_shell_def alloc_def emit_def req_shell_def load_def NewShell_def Let_def
        sys0_def cfg0_def)
  have ld: "load (systems w_shell) 0 = Some sys0" by (simp add: ss load_def)
  have l4: "4 \<le> length (Payload req_exec_ls)" "4 \<le> length (Payload req_exec_scp)"
    by code_simp+
  have sp: "Split (drop 4 (Payload req_exec_ls)) CHR '' '' = ''ls'' # []" by code_simp
  have np: "\<not> HasPrefix ''ls'' ''scp''" by code_simp
  have ex: "System_Exec L0 ''ls'' [] sys0 = Ret 0 False sys0"
    by (simp add: System_Exec_def Shell_Exec_def Base_def L0_def)
  have pe: "snd (wire_ptyRequest (Payload req_pty)) = False" by code_simp
  have pd: "pty_Width (fst (wire_ptyRequest (Payload req_pty))) = 100"
    "pty_Height (fst (wire_ptyRequest (Payload req_pty))) = 30"
    by code_simp+
  have pu: "Unmarshal_ptyRequest L0 (Payload req_pty)
              = (fst (wire_ptyRequest (Payload req_pty)), False)"
    using pe by (simp add: L0_def prod_eq_iff)
  have pf: "snd (Unmarshal_ptyRequest L0 (Payload req_pty_empty))"
    by (simp add: L0_def req_pty_empty_def wire_ptyRequest_def parseString_def
        parseUint32_def)
  note inst = C6_context_creation [OF refl, where L = L0 and cfg = cfg0 and a = 0
      and prog = "''ls''" and args = "[]" and sys = sys0 and n = 0 and err = False
      and sys' = sys0 and ptyreq = "fst (wire_ptyRequest (Payload req_pty))"]
  have a1: "s_sys (handleRequest L0 cfg0 w0 req_shell) = Some 0
            \<and> contexts_created (handleRequest L0 cfg0 w0 req_shell) = Suc (contexts_created w0)
            \<and> systems (handleRequest L0 cfg0 w0 req_shell) = [sys0]"
    using inst [where w = w0 and req = req_shell] t n h by (simp add: sys0_def)
  have a2: "s_sys (handleRequest L0 cfg0 w_shell req_shell) = Some 0
            \<and> contexts_created (handleRequest L0 cfg0 w_shell req_shell) = contexts_created w_shell
            \<and> systems (handleRequest L0 cfg0 w_shell req_shell) = [sys0]
            \<and> last (shells (handleRequest L0 cfg0 w_shell req_shell)) = NewShell 0"
    using inst [where w = w_shell and req = req_shell] t s ss by simp
  have a3: "s_sys (handleRequest L0 cfg0 w_shell req_exec_ls) = Some 0
            \<and> contexts_created (handleRequest L0 cfg0 w_shell req_exec_ls) = contexts_created w_shell
            \<and> systems (handleRequest L0 cfg0 w_shell req_exec_ls) = [sys0]
            \<and> ExecCmd ''ls'' [] \<in> set (trace (handleRequest L0 cfg0 w_shell req_exec_ls))"
    using inst [where w = w_shell and req = req_exec_ls] t s ss ld l4 sp np ex by simp
  have a4: "s_sys (handleRequest L0 cfg0 w0 req_exec_scp) = None
            \<and> contexts_created (handleRequest L0 cfg0 w0 req_exec_scp) = Suc (contexts_created w0)"
    using inst [where w = w0 and req = req_exec_scp] t n l4 by simp
  have a5: "s_sys (handleRequest L0 cfg0 w_shell req_pty) = Some 1
            \<and> contexts_created (handleRequest L0 cfg0 w_shell req_pty) = Suc (contexts_created w_shell)
            \<and> systems (handleRequest L0 cfg0 w_shell req_pty)
                 = [sys0, NewSystem L0 ''root'' ''spr'' 100 30]"
    using inst [where w = w_shell and req = req_pty] t ss u h pu pd by simp
  have a6: "handleRequest L0 cfg0 w_shell req_pty_empty = emit [Reply False] w_shell"
    using inst [where w = w_shell and req = req_pty_empty] t pf by simp
  from n(1) s ss a1 a2 a3 a4 a5 a6 show ?thesis by simp
qed

text \<open>
  The claim as stated fails in two ways. Two \<^verbatim>\<open>pty-req\<close> requests in a row each create a
  context, and the second replaces the first in the session. Three \<^verbatim>\<open>exec\<close> requests
  for \<^verbatim>\<open>scp\<close> on a session without a context create three contexts, and the session
  still has none.
\<close>

theorem C6_context_counterexample:
  "map_option (\<lambda>w. (s_sys w, contexts_created w)) (run L0 cfg0 w0 [Recv (Some req_pty)])
     = Some (Some 0, 1)
   \<and> map_option (\<lambda>w. (s_sys w, contexts_created w))
        (run L0 cfg0 w0 [Recv (Some req_pty), Recv (Some req_pty)])
     = Some (Some 1, 2)
   \<and> map_option (\<lambda>w. (s_sys w, contexts_created w))
        (run L0 cfg0 w0
           [Recv (Some req_exec_scp), Recv (Some req_exec_scp), Recv (Some req_exec_scp)])
     = Some (None, 3)"
  by code_simp

text \<open>
  Claim C7, as the code has it. An \<^verbatim>\<open>env\<close> request is answered with success when its
  payload parses and with failure when it does not, and that is all: the session, the
  contexts and their environment mappings are as before (name and value are only logged).
\<close>

theorem C7_env_reply_only:
  assumes "Type req = ''env''"
  shows "handleRequest L cfg w req =
           emit [Reply (\<not> snd (Unmarshal_envRequest L (Payload req)))] w"
  using assms by (simp add: handleRequest_def handle_env_def split: prod.splits)

theorem C7_env_reply_only_witness:
  "Type req_env = ''env''
   \<and> snd (Unmarshal_envRequest L0 (Payload req_env)) = False
   \<and> handleRequest L0 cfg0 w_shell req_env = emit [Reply True] w_shell"
proof -
  have h: "Type req_env = ''env''" by (simp add: req_env_def)
  have e: "snd (Unmarshal_envRequest L0 (Payload req_env)) = False" by code_simp
  show ?thesis using h e C7_env_reply_only [OF h, of L0 cfg0 w_shell] by simp
qed

text \<open>
  The claim as stated fails twice. After a \<^verbatim>\<open>pty-req\<close> has created the context, the
  request \<^verbatim>\<open>FOO=bar\<close> is answered with success and the context has no variable \<^verbatim>\<open>FOO\<close>;
  and an \<^verbatim>\<open>env\<close> request with an empty payload is answered with failure.
\<close>

theorem C7_env_counterexample:
  "map_option (\<lambda>w. (last (trace w), map (\<lambda>s. envVars s ''FOO'') (systems w)))
       (run L0 cfg0 w0 [Recv (Some req_pty), Recv (Some req_env)])
     = Some (Reply True, [None])
   \<and> map_option trace (run L0 cfg0 w0 [Recv (Some req_env_empty)]) = Some [Reply False]"
  by code_simp

text \<open>
  Claim C9. An \<^verbatim>\<open>exec\<close> request whose command line, cut at the spaces, has a first part
  that starts with \<^verbatim>\<open>scp\<close> starts the File-Copy Service with the remaining parts and is
  answered with success. No command is run, nothing is sent on the Quit Signal, and before
  the test a context is created (and not kept) when the session has none.
\<close>

theorem C9_scp_prefix:
  assumes "Type req = ''exec''" and "4 \<le> length (Payload req)"
    and "Split (drop 4 (Payload req)) CHR '' '' = arg0 # args"
    and "HasPrefix arg0 ''scp''"
  shows "trace (handleRequest L cfg w req) =
           trace w @ (if s_sys w = None then [NewSystemEv (length (systems w)) 80 24] else [])
             @ [GoSCP args, Reply True]
         \<and> commands_run (handleRequest L cfg w req) = commands_run w
         \<and> quitSignal (handleRequest L cfg w req) = quitSignal w
         \<and> s_sys (handleRequest L cfg w req) = s_sys w
         \<and> disp (handleRequest L cfg w req) = disp w"
  using assms
  by (simp add: handleRequest_def handle_exec_def alloc_def emit_def commands_run_def
      Let_def split: option.splits)

theorem C9_scp_prefix_witness:
  "Type req_exec_scpfoo = ''exec'' \<and> 4 \<le> length (Payload req_exec_scpfoo)
   \<and> Split (drop 4 (Payload req_exec_scpfoo)) CHR '' '' = [''scpfoo'', ''-t'', ''/tmp'']
   \<and> HasPrefix ''scpfoo'' ''scp''
   \<and> trace (handleRequest L0 cfg0 w_shell req_exec_scpfoo)
        = trace w_shell @ [GoSCP [''-t'', ''/tmp''], Reply True]
   \<and> commands_run (handleRequest L0 cfg0 w_shell req_exec_scpfoo) = commands_run w_shell"
proof -
  have h1: "Type req_exec_scpfoo = ''exec''" by (simp add: req_exec_scpfoo_def)
  have h2: "4 \<le> length (Payload req_exec_scpfoo)" by code_simp
  have h3: "Split (drop 4 (Payload req_exec_scpfoo)) CHR '' '' = ''scpfoo'' # [''-t'', ''/tmp'']"
    by code_simp
  have h4: "HasPrefix ''scpfoo'' ''scp''" by code_simp
  have s: "s_sys w_shell = Some 0" by code_simp
  show ?thesis
    using h1 h2 h3 h4 s C9_scp_prefix [OF h1 h2 h3 h4, of L0 cfg0 w_shell] by simp
qed

text \<open>
  What the wire decoder leaves in the structure of a \<^verbatim>\<open>window-change\<close> request: nothing
  when fewer than four bytes are there, and both fields when eight bytes or more are, with an
  error unless they are exactly eight.
\<close>

lemma wire_winChgRequest_short:
  "length d < 4 \<Longrightarrow> wire_winChgRequest d = (\<lparr>win_Width = 0, win_Height = 0\<rparr>, True)"
  by (simp add: wire_winChgRequest_def parseUint32_def)

lemma wire_winChgRequest_long:
  "8 \<le> length d \<Longrightarrow>
     wire_winChgRequest d =
       (\<lparr>win_Width = be32 (take 4 d), win_Height = be32 (take 4 (drop 4 d))\<rparr>, length d \<noteq> 8)"
  by (auto simp: wire_winChgRequest_def parseUint32_def)

text \<open>
  Claim C10, as the code has it. A \<^verbatim>\<open>window-change\<close> request that arrives while a Shell
  with its terminal is running and whose payload fails to parse is answered with failure,
  and \<^verbatim>\<open>SetSize\<close> is still called, on the Shell's context and on its terminal, with the
  two fields as the failed parse left them: a field read before the failure has the value
  read, and only a field that was not reached is zero.
\<close>

theorem C10_failed_parse_dims:
  assumes "Type req = ''window-change''" and "sh w = Some k"
    and "load (shells w) k = Some shl" and "terminal shl"
    and "load (systems w) (sh_sys shl) = Some sys"
    and "Unmarshal_winChgRequest L (Payload req) = (winChg, True)"
  shows "handleRequest L cfg w req =
           emit [Reply False, TermSetSize k (int (win_Width winChg)) (int (win_Height winChg))]
             (w\<lparr>systems := (systems w)[sh_sys shl :=
                   sys\<lparr>Width := int (win_Width winChg), Height := int (win_Height winChg)\<rparr>]\<rparr>)"
  using assms
  by (simp add: handleRequest_def handle_window_change_def SetSize_def emit_def Let_def)

theorem C10_failed_parse_dims_witness:
  "Type req_winch = ''window-change'' \<and> sh w_shell = Some 0
   \<and> load (shells w_shell) 0 = Some \<lparr>sh_sys = 0, terminal = True, pc = Reading\<rparr>
   \<and> load (systems w_shell) 0 = Some sys0
   \<and> Unmarshal_winChgRequest L0 (Payload req_winch)
        = (\<lparr>win_Width = 120, win_Height = 40\<rparr>, True)
   \<and> handleRequest L0 cfg0 w_shell req_winch
        = emit [Reply False, TermSetSize 0 120 40]
            (w_shell\<lparr>systems := [sys0\<lparr>Width := 120, Height := 40\<rparr>]\<rparr>)"
proof -
  have h1: "Type req_winch = ''window-change''" by (simp add: req_winch_def)
  have h2: "sh w_shell = Some 0" by code_simp
  have h3: "load (shells w_shell) 0 = Some \<lparr>sh_sys = 0, terminal = True, pc = Reading\<rparr>"
    by code_simp
  have h4: "terminal \<lparr>sh_sys = 0, terminal = True, pc = Reading\<rparr>" by simp
  have s: "systems w_shell = [sys0]"
    by (simp add: w_shell_def w0_def new_channel_def step_def handleRequest_def
        handle_shell_def alloc_def emit_def req_shell_def load_def NewShell_def Let_def
        sys0_def cfg0_def)
  have h5: "load (systems w_shell) (sh_sys \<lparr>sh_sys = 0, terminal = True, pc = Reading\<rparr>)
              = Some sys0"
    by (simp add: s load_def)
  have d: "wire_winChgRequest (Payload req_winch) = (\<lparr>win_Width = 120, win_Height = 40\<rparr>, True)"
    by code_simp
  have h6: "Unmarshal_winChgRequest L0 (Payload req_winch)
              = (\<lparr>win_Width = 120, win_Height = 40\<rparr>, True)"
    using d by (simp add: L0_def)
  show ?thesis
    using h1 h2 h3 h5 h6 s C10_failed_parse_dims [OF h1 h2 h3 h4 h5 h6, of cfg0]
    by simp
qed

text \<open>
  The claim as stated fails on the \<^verbatim>\<open>window-change\<close> request that every client sends:
  its sixteen bytes are eight more than the two fields of the structure take, so the parse
  fails after both fields were read, the answer is failure, and the Shell and its
  terminal are set to 120 by 40, not to 0 by 0.
\<close>

theorem C10_failed_parse_counterexample:
  "snd (wire_winChgRequest (Payload req_winch)) = True
   \<and> map_option (\<lambda>w. (trace w, map (\<lambda>s. (Width s, Height s)) (systems w)))
        (run L0 cfg0 w0 [Recv (Some req_shell), ShellStart 0, Recv (Some req_winch)])
     = Some ([NewSystemEv 0 80 24, GoShell 0, Reply True, Reply False, TermSetSize 0 120 40],
             [(120, 40)])"
  by code_simp

section \<open>Properties of the interactive shell\<close>

text \<open>
  \<open>TrimSpace\<close> on white space outside ASCII: a no-break space in front, an ideographic
  space and a line feed behind.
\<close>

lemma TrimSpace_unicode:
  "TrimSpace ([CHR 0xC2, CHR 0xA0] @ '' ls -l  '' @ [CHR 0xE3, CHR 0x80, CHR 0x80, CHR 0x0A])
     = ''ls -l''"
  by code_simp

lemma found_command_status:
  assumes "TrimSpace line = cmd" and "TrimSpace cmd \<noteq> []"
    and "cmd \<noteq> ''logout''" and "cmd \<noteq> ''quit''"
    and "\<not> HasPrefix cmd ''cd''" and "\<not> HasPrefix cmd ''export''"
    and "SplitN2 cmd CHR '' '' = arg0 # args"
    and "funcMap L (Base arg0) = Some execFunc"
    and "execFunc args sys = Returns n sys'"
  shows "shell_turn L sys (line, None) =
           Loop (sys'\<lparr>envVars := (envVars sys')(''?'' \<mapsto> string_of_rune n)\<rparr>) []"
  using assms by (simp add: shell_turn_def Shell_Exec_def)

text \<open>
  Claim C8. The exit status of a command that was found should be stored in the variable
  \<^verbatim>\<open>?\<close> as a decimal string. The code stores the conversion \<^verbatim>\<open>string(n)\<close>, which is the
  encoding of the code point \<^verbatim>\<open>n\<close>: after the line \<^verbatim>\<open>ls\<close>, a command that returns 0, the
  variable holds the one byte 0 and not the string \<^verbatim>\<open>0\<close>, which is what \<^verbatim>\<open>strconv.Itoa\<close>
  gives.
\<close>

theorem C8_exit_status_as_rune:
  "(case shell_turn L0 sys0 (''ls'', None) of
      Loop sys' out \<Rightarrow> envVars sys' ''?'' = Some [CHR 0x00] \<and> out = []
    | Return sig sys' out \<Rightarrow> False)
   \<and> Itoa 0 = ''0''"
  by code_simp

section \<open>Properties of the Quit Signal\<close>
























text \<open>
  Two \<^verbatim>\<open>exec\<close> requests, the second taken by the \<^verbatim>\<open>select\<close> before the value of the
  first: the second send finds the buffer full, and the dispatcher waits in it for ever,
  with one send gone through.
\<close>

lemma two_exec_requests_block:
  "map_option (\<lambda>w. (quit_writes w, commands_run w, disp w))
     (run L0 cfg0 w0 [Recv (Some req_exec_ls), Recv (Some req_exec_false)])
     = Some (1, 2, BlockedSend 1)"
  by code_simp

end
